theory Spec2Isabelle
  imports Complex_Main
begin

section \<open>The step-count pipeline of \<^verbatim>\<open>stepcount/api.py\<close>\<close>

text \<open>
  The function \<^verbatim>\<open>process_csv_data\<close> is one linear sequence of stages. Each
  stage is embedded as a function of its own, named after the comment that opens it in
  the source, and returns either the exception the source raises there (\<open>Inl\<close>) or
  the value the next stage works on (\<open>Inr\<close>).

  Conventions of the embedding:
  \<^item> a timestamp is an \<open>int\<close>, the nanoseconds since the epoch (the resolution of a
    pandas \<^verbatim>\<open>Timestamp\<close>); a \<^verbatim>\<open>Timedelta\<close> is an \<open>int\<close> of nanoseconds;
  \<^item> a Python \<^verbatim>\<open>float\<close> is a \<open>real\<close>: arithmetic is exact, rounding is not
    modelled, and \<^verbatim>\<open>NaN\<close> is \<open>None\<close> of an option;
  \<^item> a call into pandas or into \<^verbatim>\<open>stepcount.utils\<close> whose code is not part of
    \<^verbatim>\<open>api.py\<close> is a parameter of the stage that makes it, with a result type that
    lets it raise.
\<close>

subsection \<open>Exceptions\<close>

datatype error =
    TxyzLengthError
  | MissingColumnsError string
  | TypeCoercionError "(string \<times> nat list \<times> string list) list"
  | ZeroDivisionError
  | InsufficientResampleError nat nat
  | ResampleFailedError nat string
  | CollaboratorError string

subsection \<open>Parse column names (lines 109--125)\<close>

text \<open>\<^verbatim>\<open>request.txyz.split(',')\<close>: the empty string splits into one empty name.\<close>

fun split_comma :: "string \<Rightarrow> string list" where
  "split_comma [] = [[]]"
| "split_comma (c # cs) =
     (if c = CHR '','' then [] # split_comma cs
      else (case split_comma cs of
              [] \<Rightarrow> [[c]]
            | p # ps \<Rightarrow> (c # p) # ps))"

text \<open>\<^verbatim>\<open>sep.join(names)\<close>.\<close>

fun join :: "string \<Rightarrow> string list \<Rightarrow> string" where
  "join sep [] = []"
| "join sep [s] = s"
| "join sep (s # t # ts) = s @ sep @ join sep (t # ts)"

text \<open>
  \<^verbatim>\<open>csv_data.rename(columns=mapping)\<close> on the list of column labels: a label the
  dictionary has is replaced, any other passes through.
\<close>

definition rename :: "(string \<rightharpoonup> string) \<Rightarrow> string list \<Rightarrow> string list" where
  "rename mapping columns =
     map (\<lambda>c. case mapping c of Some n \<Rightarrow> n | None \<Rightarrow> c) columns"

text \<open>
  The stage works on the column labels of the frame. The dictionary literal of
  line 120 is built entry by entry, so that of two equal keys the later one stays.
\<close>

definition parse_column_names :: "string \<Rightarrow> string list \<Rightarrow> error + string list" where
  "parse_column_names txyz columns =
     (let usecols = split_comma txyz in
      if length usecols \<noteq> 4 then Inl TxyzLengthError
      else
        (let missing_cols = filter (\<lambda>col. col \<notin> set columns) usecols in
         if missing_cols \<noteq> [] then
           Inl (MissingColumnsError
                  (''Missing columns: '' @ join '', '' missing_cols
                   @ ''. Available columns: '' @ join '', '' columns))
         else
           Inr (rename (Map.empty(usecols ! 0 \<mapsto> ''time'', usecols ! 1 \<mapsto> ''x'',
                                  usecols ! 2 \<mapsto> ''y'', usecols ! 3 \<mapsto> ''z''))
                       columns)))"

subsection \<open>Validate data types for the x, y, z columns (lines 127--150)\<close>

text \<open>
  A value of a raw column: a number, a string, or a missing value (\<^verbatim>\<open>NaN\<close>,
  \<^verbatim>\<open>None\<close>). The rows carry the default index \<^verbatim>\<open>0, 1, 2, ...\<close> that
  \<^verbatim>\<open>pd.read_csv\<close> gives them, so the label of a row is its position.
\<close>

datatype cell = Num real | Str string | Null


text \<open>
  \<^verbatim>\<open>pd.to_numeric(..., errors='coerce')\<close> on one value; \<open>parse\<close> is the reading of a
  string as a number, \<open>None\<close> where there is none.
\<close>

definition to_numeric :: "(string \<Rightarrow> real option) \<Rightarrow> cell \<Rightarrow> cell" where
  "to_numeric parse c =
     (case c of
        Str s \<Rightarrow> (case parse s of Some v \<Rightarrow> Num v | None \<Rightarrow> Null)
      | _ \<Rightarrow> c)"

definition isnull :: "cell \<Rightarrow> bool" where
  "isnull c \<longleftrightarrow> c = Null"

definition notna :: "cell \<Rightarrow> bool" where
  "notna c \<longleftrightarrow> c \<noteq> Null"




text \<open>
  The reading of the specification, to compare the loop with: a value fails coercion
  when it is a string that is not a number; \<open>failing_cells parse 1 values\<close> lists the
  failing values of a column in row order, each with its 1-based row number; at most
  five of them are reported for a column, and a column with none is not reported.
\<close>

definition non_numeric :: "(string \<Rightarrow> real option) \<Rightarrow> cell \<Rightarrow> bool" where
  "non_numeric parse c = (case c of Str s \<Rightarrow> parse s = None | _ \<Rightarrow> False)"



subsection \<open>Calculate sample rate if not provided (lines 214--258)\<close>

text \<open>
  What \<^verbatim>\<open>utils.infer_freq(csv_data.index)\<close> can hand back: it raises, it returns
  \<^verbatim>\<open>None\<close>, it returns a \<^verbatim>\<open>Timedelta\<close> (an object with \<^verbatim>\<open>total_seconds\<close>),
  or it returns a number that \<^verbatim>\<open>float\<close> accepts.
\<close>

datatype infer_result =
    InferRaises
  | InferNone
  | InferTimedelta int
  | InferNumber real

definition unreasonable :: "real \<Rightarrow> bool" where
  "unreasonable sample_rate \<longleftrightarrow> sample_rate < 1 \<or> sample_rate > 1000"

text \<open>
  The body of the \<^verbatim>\<open>try\<close> block. \<open>None\<close> stands for an exception caught by
  \<^verbatim>\<open>except Exception\<close>: the one of \<^verbatim>\<open>infer_freq\<close>, the \<^verbatim>\<open>ValueError\<close> for
  \<^verbatim>\<open>None\<close> or for an unreasonable rate, and the \<^verbatim>\<open>ZeroDivisionError\<close> of
  \<^verbatim>\<open>1.0 / sample_rate.total_seconds()\<close> on a zero period.
\<close>

definition total_seconds :: "real \<Rightarrow> real" where
  "total_seconds ns = ns / 1000000000"

fun try_infer_freq :: "infer_result \<Rightarrow> real option" where
  "try_infer_freq InferRaises = None"
| "try_infer_freq InferNone = None"
| "try_infer_freq (InferTimedelta ns) =
     (if total_seconds (of_int ns) = 0 then None
      else let sample_rate = 1 / total_seconds (of_int ns)
           in if unreasonable sample_rate then None else Some sample_rate)"
| "try_infer_freq (InferNumber v) =
     (if unreasonable v then None else Some v)"

text \<open>
  \<^verbatim>\<open>csv_data.index.to_series().diff().dropna()\<close>: the differences of consecutive
  timestamps; the first entry of \<^verbatim>\<open>diff\<close> is \<^verbatim>\<open>NaT\<close> and is dropped. The index
  holds no \<^verbatim>\<open>NaT\<close> here (line 190 has raised otherwise).
\<close>

definition time_diffs :: "int list \<Rightarrow> int list" where
  "time_diffs idx = map (\<lambda>(a, b). b - a) (zip idx (tl idx))"

text \<open>
  The median and the mean of a pandas series of durations; \<^verbatim>\<open>NaT\<close> (\<open>None\<close>) on an
  empty series. Both are kept exact: pandas rounds them to whole nanoseconds.
\<close>

definition median :: "int list \<Rightarrow> real option" where
  "median xs =
     (if xs = [] then None
      else let s = sort xs; n = length s
           in if odd n then Some (of_int (s ! (n div 2)))
              else Some ((of_int (s ! (n div 2 - 1)) + of_int (s ! (n div 2))) / 2))"

definition mean :: "int list \<Rightarrow> real option" where
  "mean xs =
     (if xs = [] then None
      else Some (of_int (sum_list xs) / of_nat (length xs)))"

text \<open>
  The \<^verbatim>\<open>except\<close> handler (lines 232--256), branch for branch. A division by a
  zero number of seconds raises \<^verbatim>\<open>ZeroDivisionError\<close>, which nothing catches here.
\<close>

definition manual_sample_rate :: "int list \<Rightarrow> error + real" where
  "manual_sample_rate idx =
     (if length idx > 1 then
        (let diffs = time_diffs idx in
         if length diffs > 0 then
           (case median diffs of
              Some median_diff \<Rightarrow>
                if total_seconds median_diff = 0 then Inl ZeroDivisionError
                else
                  (let sample_rate = 1 / total_seconds median_diff in
                   if unreasonable sample_rate then
                     (case mean diffs of
                        Some mean_diff \<Rightarrow>
                          if total_seconds mean_diff = 0 then Inl ZeroDivisionError
                          else Inr (1 / total_seconds mean_diff)
                      | None \<Rightarrow> Inr 104)
                   else Inr 104)
            | None \<Rightarrow> Inr 104)
         else Inr 104)
      else Inr 104)"

text \<open>
  The whole stage: \<open>request_sample_rate\<close> is \<^verbatim>\<open>request.sample_rate\<close>
  (\<^verbatim>\<open>Optional[int]\<close>), \<open>infer_freq\<close> is \<^verbatim>\<open>utils.infer_freq\<close>, \<open>idx\<close> is
  \<^verbatim>\<open>csv_data.index\<close>.
\<close>

definition calculate_sample_rate ::
  "(int list \<Rightarrow> infer_result) \<Rightarrow> int option \<Rightarrow> int list \<Rightarrow> error + real" where
  "calculate_sample_rate infer_freq request_sample_rate idx =
     (if request_sample_rate = None \<or> request_sample_rate = Some 0 then
        (case try_infer_freq (infer_freq idx) of
           Some sample_rate \<Rightarrow> Inr sample_rate
         | None \<Rightarrow> manual_sample_rate idx)
      else Inr (of_int (the request_sample_rate)))"

text \<open>
  The frequency the median of the consecutive differences converts to, when there is
  one: the quantity the fallback computes first.
\<close>

definition median_frequency :: "int list \<Rightarrow> real option" where
  "median_frequency idx =
     (case median (time_diffs idx) of
        None \<Rightarrow> None
      | Some median_diff \<Rightarrow>
          if total_seconds median_diff = 0 then None
          else Some (1 / total_seconds median_diff))"

subsection \<open>The frame after the time column has become the index\<close>

text \<open>
  One row of \<^verbatim>\<open>csv_data\<close> from line 197 on: the timestamp of the index and the three
  accelerometer columns. A value is \<open>None\<close> where pandas holds \<^verbatim>\<open>NaN\<close>. Columns
  other than these four pass through the pipeline untouched and are left out.
\<close>

record sample =
  time :: int
  x_val :: "real option"
  y_val :: "real option"
  z_val :: "real option"

subsection \<open>Resample if needed (lines 260--278)\<close>

definition resample_hz_of :: "string \<Rightarrow> nat option" where
  "resample_hz_of model_type = (if model_type = ''ssl'' then Some 30 else None)"

text \<open>
  \<open>resample_mean freq_ms csv_data\<close> is pandas'
  \<^verbatim>\<open>csv_data.resample(f'{freq_ms}ms').mean()\<close>; it returns the regridded frame or
  raises, and the source wraps whatever it raises. The truth value of
  \<^verbatim>\<open>resample_hz\<close> is that of a number: \<^verbatim>\<open>None\<close> and 0 are false.
\<close>

definition resample_if_needed ::
  "(nat \<Rightarrow> sample list \<Rightarrow> string + sample list) \<Rightarrow> string \<Rightarrow> real \<Rightarrow> sample list
     \<Rightarrow> error + (sample list \<times> real)" where
  "resample_if_needed resample_mean model_type sample_rate csv_data =
     (case resample_hz_of model_type of
        None \<Rightarrow> Inr (csv_data, sample_rate)
      | Some resample_hz \<Rightarrow>
          if resample_hz \<noteq> 0 \<and> sample_rate \<noteq> of_nat resample_hz then
            if length csv_data < 10 then
              Inl (InsufficientResampleError 10 (length csv_data))
            else
              (let freq_ms = 1000 div resample_hz in
               case resample_mean freq_ms csv_data of
                 Inl msg \<Rightarrow> Inl (ResampleFailedError resample_hz msg)
               | Inr resampled \<Rightarrow> Inr (resampled, of_nat resample_hz))
          else Inr (csv_data, sample_rate))"

subsection \<open>Wear statistics, minimum data and exclusions (lines 280--306)\<close>

text \<open>
  The test the source applies to the optional text options:
  \<^verbatim>\<open>opt and opt.strip() and opt.lower() != 'string'\<close>.
\<close>

definition isspace :: "char \<Rightarrow> bool" where
  "isspace c \<longleftrightarrow>
     c \<in> set [CHR 0x09, CHR 0x0A, CHR 0x0B, CHR 0x0C, CHR 0x0D,
                CHR 0x1C, CHR 0x1D, CHR 0x1E, CHR 0x1F, CHR 0x20]"

definition strip :: "string \<Rightarrow> string" where
  "strip s = rev (dropWhile isspace (rev (dropWhile isspace s)))"

definition lower_char :: "char \<Rightarrow> char" where
  "lower_char c =
     (case map_of (zip ''ABCDEFGHIJKLMNOPQRSTUVWXYZ'' ''abcdefghijklmnopqrstuvwxyz'') c of
        Some l \<Rightarrow> l
      | None \<Rightarrow> c)"

definition lower :: "string \<Rightarrow> string" where
  "lower s = map lower_char s"

definition option_given :: "string option \<Rightarrow> bool" where
  "option_given opt =
     (case opt of
        None \<Rightarrow> False
      | Some s \<Rightarrow> s \<noteq> [] \<and> strip s \<noteq> [] \<and> lower s \<noteq> ''string'')"

text \<open>
  What \<^verbatim>\<open>process_csv_data\<close> has in hand once line 306 is passed: one of its two
  early returns (both dictionaries with an \<^verbatim>\<open>"error"\<close> key, returned, not raised),
  or the frame and the wear statistics the model stage goes on with.
\<close>

datatype 'v outcome =
    InsufficientData nat nat
  | NoValidData "string \<rightharpoonup> 'v"
  | Proceed "sample list" "string \<rightharpoonup> 'v"

text \<open>
  The two exclusions (lines 291--296). \<^verbatim>\<open>utils.drop_first_last_days\<close> and
  \<^verbatim>\<open>utils.flag_wear_below_days\<close> are parameters; each returns a frame or raises.
\<close>

definition apply_exclusions ::
  "(sample list \<Rightarrow> string \<Rightarrow> string + sample list)
     \<Rightarrow> (sample list \<Rightarrow> string \<Rightarrow> string + sample list)
     \<Rightarrow> string option \<Rightarrow> string option \<Rightarrow> sample list \<Rightarrow> string + sample list" where
  "apply_exclusions drop_first_last_days flag_wear_below_days
       exclude_first_last exclude_wear_below csv_data =
     (case (if option_given exclude_first_last
            then drop_first_last_days csv_data (the exclude_first_last)
            else Inr csv_data) of
        Inl msg \<Rightarrow> Inl msg
      | Inr dropped \<Rightarrow>
          if option_given exclude_wear_below
          then flag_wear_below_days dropped (the exclude_wear_below)
          else Inr dropped)"

text \<open>
  \<^verbatim>\<open>csv_data[['x', 'y', 'z']].isna().any(axis=1)\<close> for one row.
\<close>

definition any_na :: "sample \<Rightarrow> bool" where
  "any_na r \<longleftrightarrow> x_val r = None \<or> y_val r = None \<or> z_val r = None"

text \<open>
  Lines 280--306 in order: wear statistics, the Random-Forest minimum, the exclusions,
  \<^verbatim>\<open>wear_stats.update(...)\<close> (the map addition \<open>++\<close>, whose right operand wins), and
  the check for data left to process. \<^verbatim>\<open>utils.calculate_wear_stats\<close> is a parameter
  that returns a dictionary or raises.
\<close>

definition wear_and_exclusions ::
  "(sample list \<Rightarrow> string + (string \<rightharpoonup> 'v))
     \<Rightarrow> (sample list \<Rightarrow> string \<Rightarrow> string + sample list)
     \<Rightarrow> (sample list \<Rightarrow> string \<Rightarrow> string + sample list)
     \<Rightarrow> string \<Rightarrow> string option \<Rightarrow> string option \<Rightarrow> sample list
     \<Rightarrow> error + 'v outcome" where
  "wear_and_exclusions calculate_wear_stats drop_first_last_days flag_wear_below_days
       model_type exclude_first_last exclude_wear_below csv_data =
     (case calculate_wear_stats csv_data of
        Inl msg \<Rightarrow> Inl (CollaboratorError msg)
      | Inr wear_stats \<Rightarrow>
          if model_type = ''rf'' \<and> length csv_data < 50 then
            Inr (InsufficientData (length csv_data) 50)
          else
            (case apply_exclusions drop_first_last_days flag_wear_below_days
                    exclude_first_last exclude_wear_below csv_data of
               Inl msg \<Rightarrow> Inl (CollaboratorError msg)
             | Inr excluded \<Rightarrow>
                 (case calculate_wear_stats excluded of
                    Inl msg \<Rightarrow> Inl (CollaboratorError msg)
                  | Inr updated \<Rightarrow>
                      if length excluded = 0 \<or> list_all any_na excluded then
                        Inr (NoValidData (wear_stats ++ updated))
                      else Inr (Proceed excluded (wear_stats ++ updated)))))"

text \<open>The wear statistics an outcome carries, when it carries any.\<close>

fun carried_wear_stats :: "'v outcome \<Rightarrow> (string \<rightharpoonup> 'v) option" where
  "carried_wear_stats (InsufficientData n m) = None"
| "carried_wear_stats (NoValidData ws) = Some ws"
| "carried_wear_stats (Proceed f ws) = Some ws"

subsection \<open>Regridding as pandas does it\<close>

text \<open>
  \<^verbatim>\<open>DataFrame.resample(rule)\<close> with its defaults: bins of the given width, closed
  and labelled on the left, counted from the midnight that opens the day of the first
  timestamp (\<^verbatim>\<open>origin='start_day'\<close>), one bin for every step from the bin of the
  first timestamp to the bin of the last, empty bins included. Timestamps are taken as
  wall-clock nanoseconds, so a day is a fixed number of them. \<open>resample_groups\<close>
  pairs the label of each bin with the rows that fall into it.
\<close>

definition minute_ns :: int where
  "minute_ns = 60000000000"

definition hour_ns :: int where
  "hour_ns = 3600000000000"

definition day_ns :: int where
  "day_ns = 86400000000000"

definition start_day :: "int list \<Rightarrow> int" where
  "start_day ts = (Min (set ts) div day_ns) * day_ns"

definition resample_groups :: "int \<Rightarrow> ('a \<Rightarrow> int) \<Rightarrow> 'a list \<Rightarrow> (int \<times> 'a list) list" where
  "resample_groups width key rows =
     (if rows = [] then []
      else
        (let ts = map key rows; origin = start_day ts
         in map (\<lambda>k. (origin + k * width,
                       filter (\<lambda>r. (key r - origin) div width = k) rows))
                [(Min (set ts) - origin) div width .. (Max (set ts) - origin) div width]))"

text \<open>
  The two aggregations the source asks for. Both skip \<^verbatim>\<open>NaN\<close>; the sum of nothing
  is 0 and the mean of nothing is \<^verbatim>\<open>NaN\<close>.
\<close>

definition nan_to_zero :: "real option \<Rightarrow> real" where
  "nan_to_zero v = (case v of None \<Rightarrow> 0 | Some a \<Rightarrow> a)"

definition nansum :: "real option list \<Rightarrow> real" where
  "nansum vs = sum_list (map nan_to_zero vs)"

definition nanmean :: "real option list \<Rightarrow> real option" where
  "nanmean vs =
     (let present = map the (filter (\<lambda>v. v \<noteq> None) vs)
      in if present = [] then None
         else Some (sum_list present / of_nat (length present)))"

text \<open>
  \<^verbatim>\<open>csv_data.resample(f'{freq_ms}ms').mean()\<close> on a frame whose columns are the three
  float columns: it does not raise. This instance of the parameter of
  \<open>resample_if_needed\<close> serves to run the stage on concrete frames.
\<close>

definition pandas_resample_mean :: "nat \<Rightarrow> sample list \<Rightarrow> string + sample list" where
  "pandas_resample_mean freq_ms csv_data =
     Inr (map (\<lambda>(label, grp).
                 \<lparr>time = label,
                  x_val = nanmean (map x_val grp),
                  y_val = nanmean (map y_val grp),
                  z_val = nanmean (map z_val grp)\<rparr>)
              (resample_groups (int freq_ms * 1000000) time csv_data))"

subsection \<open>Minutely, hourly and daily summaries (lines 449--469)\<close>

text \<open>
  A row of \<^verbatim>\<open>minutely_data\<close> and of the three tables made from it: the timestamp of
  the index and the columns \<^verbatim>\<open>Steps\<close> and \<^verbatim>\<open>ENMO(mg)\<close>.
\<close>

record step_row =
  stamp :: int
  Steps :: "real option"
  ENMO_mg :: "real option"

text \<open>
  \<^verbatim>\<open>np.sqrt(x**2 + y**2 + z**2) - 1\<close>; \<^verbatim>\<open>NaN\<close> as soon as one of the three is.
\<close>

definition enmo :: "sample \<Rightarrow> real option" where
  "enmo r =
     (case (x_val r, y_val r, z_val r) of
        (Some a, Some b, Some c) \<Rightarrow> Some (sqrt (a\<^sup>2 + b\<^sup>2 + c\<^sup>2) - 1)
      | _ \<Rightarrow> None)"

text \<open>
  Lines 450--452. \<open>Y\<close> is the series the model returns, read as a map from its index
  to its values; the assignment \<^verbatim>\<open>minutely_data['Steps'] = Y\<close> aligns it with the
  index of the frame, and a row whose timestamp \<open>Y\<close> does not have gets \<^verbatim>\<open>NaN\<close>.
\<close>

definition attach_steps :: "(int \<rightharpoonup> real) \<Rightarrow> sample list \<Rightarrow> step_row list" where
  "attach_steps Y csv_data =
     map (\<lambda>r. \<lparr>stamp = time r, Steps = Y (time r), ENMO_mg = enmo r\<rparr>) csv_data"

text \<open>
  \<^verbatim>\<open>.resample(rule).agg({'Steps': 'sum', 'ENMO(mg)': 'mean'})\<close> and \<^verbatim>\<open>.fillna(0)\<close>.
\<close>

definition aggregate :: "int \<Rightarrow> step_row list \<Rightarrow> step_row list" where
  "aggregate width rows =
     map (\<lambda>(label, grp).
            \<lparr>stamp = label,
             Steps = Some (nansum (map Steps grp)),
             ENMO_mg = nanmean (map ENMO_mg grp)\<rparr>)
         (resample_groups width stamp rows)"

definition fillna0 :: "step_row \<Rightarrow> step_row" where
  "fillna0 r = \<lparr>stamp = stamp r,
                Steps = Some (nan_to_zero (Steps r)),
                ENMO_mg = Some (nan_to_zero (ENMO_mg r))\<rparr>"

definition minutely_data :: "(int \<rightharpoonup> real) \<Rightarrow> sample list \<Rightarrow> step_row list" where
  "minutely_data Y csv_data = map fillna0 (aggregate minute_ns (attach_steps Y csv_data))"

definition hourly_data :: "(int \<rightharpoonup> real) \<Rightarrow> sample list \<Rightarrow> step_row list" where
  "hourly_data Y csv_data = aggregate hour_ns (minutely_data Y csv_data)"

definition daily_data :: "(int \<rightharpoonup> real) \<Rightarrow> sample list \<Rightarrow> step_row list" where
  "daily_data Y csv_data = aggregate day_ns (minutely_data Y csv_data)"

text \<open>
  The step count of a row of a table, and the rows of a table that lie in the calendar
  day of a given timestamp.
\<close>

definition step_count :: "step_row \<Rightarrow> real" where
  "step_count r = nan_to_zero (Steps r)"

definition total_steps :: "step_row list \<Rightarrow> real" where
  "total_steps rows = sum_list (map step_count rows)"

definition on_day :: "int \<Rightarrow> step_row list \<Rightarrow> step_row list" where
  "on_day t rows = filter (\<lambda>r. stamp r div day_ns = t div day_ns) rows"

section \<open>Properties\<close>

subsection \<open>Schema mapping\<close>

lemma parse_column_names_fails_iff:
  "(\<exists>e. parse_column_names txyz columns = Inl e)
     \<longleftrightarrow> length (split_comma txyz) \<noteq> 4 \<or> \<not> set (split_comma txyz) \<subseteq> set columns"
  by (auto simp: parse_column_names_def Let_def filter_empty_conv)

lemma parse_column_names_missing:
  assumes "length (split_comma txyz) = 4" and "\<not> set (split_comma txyz) \<subseteq> set columns"
  shows "parse_column_names txyz columns =
         Inl (MissingColumnsError
               (''Missing columns: ''
                @ join '', '' (filter (\<lambda>col. col \<notin> set columns) (split_comma txyz))
                @ ''. Available columns: '' @ join '', '' columns))"
  using assms by (auto simp: parse_column_names_def Let_def filter_empty_conv)

lemma parse_column_names_distinct:
  assumes "split_comma txyz = [t, a, b, c]" and "set [t, a, b, c] \<subseteq> set columns"
    and "distinct [t, a, b, c]"
  shows "parse_column_names txyz columns =
         Inr (map (\<lambda>col. if col = t then ''time'' else if col = a then ''x''
                         else if col = b then ''y'' else if col = c then ''z'' else col)
                  columns)"
  using assms by (auto simp: parse_column_names_def Let_def filter_empty_conv rename_def)

text \<open>
  Claim C7, amended. Schema mapping fails if and only if the list does not
  have exactly four names or some named column is absent from the input. When the list
  has four names and one is absent, the message is \<^verbatim>\<open>Missing columns: \<close> followed by
  every missing name, then \<^verbatim>\<open>. Available columns: \<close> followed by every column of the
  input. When all four are present and pairwise distinct, each named column is renamed
  to \<^verbatim>\<open>time\<close>, \<^verbatim>\<open>x\<close>, \<^verbatim>\<open>y\<close>, \<^verbatim>\<open>z\<close> in that order and every other column keeps
  its name.
\<close>

theorem schema_mapping_outcomes:
  "((\<exists>e. parse_column_names txyz columns = Inl e)
      \<longleftrightarrow> length (split_comma txyz) \<noteq> 4 \<or> \<not> set (split_comma txyz) \<subseteq> set columns)
   \<and> (length (split_comma txyz) = 4 \<and> \<not> set (split_comma txyz) \<subseteq> set columns \<longrightarrow>
        parse_column_names txyz columns =
          Inl (MissingColumnsError
                (''Missing columns: ''
                 @ join '', '' (filter (\<lambda>col. col \<notin> set columns) (split_comma txyz))
                 @ ''. Available columns: '' @ join '', '' columns)))
   \<and> (split_comma txyz = [t, a, b, c] \<and> set [t, a, b, c] \<subseteq> set columns
        \<and> distinct [t, a, b, c] \<longrightarrow>
        parse_column_names txyz columns =
          Inr (map (\<lambda>col. if col = t then ''time'' else if col = a then ''x''
                          else if col = b then ''y'' else if col = c then ''z'' else col)
                   columns))"
  using parse_column_names_fails_iff [of txyz columns]
    parse_column_names_missing [of txyz columns]
    parse_column_names_distinct [of txyz t a b c columns]
  by blast

theorem schema_mapping_outcomes_witness:
  "parse_column_names ''stamp,ax,ay,az'' [''id'', ''stamp'', ''ax'', ''ay'', ''az'']
     = Inr [''id'', ''time'', ''x'', ''y'', ''z'']
   \<and> parse_column_names ''stamp,ax,ay,az'' [''stamp'', ''ax'', ''temp'']
     = Inl (MissingColumnsError ''Missing columns: ay, az. Available columns: stamp, ax, temp'')
   \<and> (\<exists>e. parse_column_names ''stamp,ax,ay'' [''stamp'', ''ax'', ''ay''] = Inl e)"
proof -
  have s: "split_comma ''stamp,ax,ay,az'' = [''stamp'', ''ax'', ''ay'', ''az'']"
    by simp
  have s3: "length (split_comma ''stamp,ax,ay'') \<noteq> 4"
    by simp
  have 1: "parse_column_names ''stamp,ax,ay,az'' [''id'', ''stamp'', ''ax'', ''ay'', ''az'']
     = Inr [''id'', ''time'', ''x'', ''y'', ''z'']"
    using schema_mapping_outcomes [of "''stamp,ax,ay,az''"
        "[''id'', ''stamp'', ''ax'', ''ay'', ''az'']" "''stamp''" "''ax''" "''ay''" "''az''"] s
    by simp
  have 2: "parse_column_names ''stamp,ax,ay,az'' [''stamp'', ''ax'', ''temp'']
     = Inl (MissingColumnsError ''Missing columns: ay, az. Available columns: stamp, ax, temp'')"
    using schema_mapping_outcomes [of "''stamp,ax,ay,az''"
        "[''stamp'', ''ax'', ''temp'']" "''stamp''" "''ax''" "''ay''" "''az''"] s
    by simp
  have 3: "\<exists>e. parse_column_names ''stamp,ax,ay'' [''stamp'', ''ax'', ''ay''] = Inl e"
    using schema_mapping_outcomes [of "''stamp,ax,ay''" "[''stamp'', ''ax'', ''ay'']"] s3
    by blast
  from 1 2 3 show ?thesis by blast
qed

text \<open>
  Claim C7 as stated says that whenever the mapping does not fail the columns are
  renamed to the canonical set. With a name given twice the mapping does not fail, the
  dictionary keeps the later role of that name, and no column is renamed to
  \<^verbatim>\<open>time\<close>.
\<close>

theorem schema_mapping_repeated_name:
  "length (split_comma ''a,a,b,c'') = 4
   \<and> set (split_comma ''a,a,b,c'') \<subseteq> set [''a'', ''b'', ''c'']
   \<and> parse_column_names ''a,a,b,c'' [''a'', ''b'', ''c''] = Inr [''x'', ''y'', ''z'']
   \<and> ''time'' \<notin> set [''x'', ''y'', ''z'']"
  by (simp add: parse_column_names_def rename_def)

subsection \<open>Type validation\<close>

lemma failed_iff_non_numeric:
  "isnull (to_numeric parse c) \<and> notna c \<longleftrightarrow> non_numeric parse c"
  by (cases c) (auto simp: isnull_def notna_def to_numeric_def non_numeric_def split: option.splits)





lemma failed_mask_nth:
  assumes "idx < length values"
  shows "map (\<lambda>(c', c). isnull c' \<and> notna c) (zip (map (to_numeric parse) values) values) ! idx
       = non_numeric parse (values ! idx)"
  using assms by (simp add: failed_iff_non_numeric)










subsection \<open>Sample-rate inference\<close>

lemma try_infer_freq_reasonable:
  "try_infer_freq r = Some f \<Longrightarrow> \<not> unreasonable f"
  by (cases r) (auto simp: Let_def split: if_splits)

lemma time_diffs_Nil_iff: "time_diffs idx = [] \<longleftrightarrow> length idx \<le> 1"
  by (cases idx; cases "tl idx") (auto simp: time_diffs_def)

text \<open>
  Whenever the median of the differences converts to a frequency inside the band, the
  handler assigns the constant of its innermost \<^verbatim>\<open>else\<close> (line 250), not that
  frequency.
\<close>

lemma manual_sample_rate_in_band:
  assumes "median_frequency idx = Some f" and "\<not> unreasonable f"
  shows "manual_sample_rate idx = Inr 104"
proof -
  from assms(1) obtain m where m: "median (time_diffs idx) = Some m"
    and nz: "total_seconds m \<noteq> 0" and f: "f = 1 / total_seconds m"
    by (auto simp: median_frequency_def split: option.splits if_splits)
  from m have ne: "time_diffs idx \<noteq> []"
    by (auto simp: median_def)
  then have len: "length idx > 1"
    by (simp add: time_diffs_Nil_iff)
  show ?thesis
    using m nz f assms(2) ne len
    by (simp add: manual_sample_rate_def Let_def)
qed

text \<open>
  Claim C1 (the median fallback is the final estimate when it lies in the band). The
  code does otherwise. The recording below has the consecutive differences
  5 s, 5 s, 5 s, 0.1 s, 0.2 s, 0.3 s, 0.4 s; its dominant spacing is 5 s, so primary
  inference gives 0.2 Hz, outside the band, and is rejected; the median difference is
  0.4 s, that is 2.5 Hz, inside the band; and the stage returns 104, not 2.5.
\<close>

theorem sample_rate_median_in_band_is_default:
  "calculate_sample_rate (\<lambda>_. InferTimedelta 5000000000) None
     [0, 5000000000, 10000000000, 15000000000, 15100000000, 15300000000,
      15600000000, 16000000000] = Inr 104
   \<and> try_infer_freq (InferTimedelta 5000000000) = None
   \<and> median_frequency
     [0, 5000000000, 10000000000, 15000000000, 15100000000, 15300000000,
      15600000000, 16000000000] = Some (5 / 2)"
  by (simp add: calculate_sample_rate_def manual_sample_rate_def median_frequency_def
      time_diffs_def median_def total_seconds_def unreasonable_def)





subsection \<open>Resampling\<close>

text \<open>
  Claim C5: when resampling is triggered (model type \<^verbatim>\<open>ssl\<close>, whose target is
  30 Hz, and a sample rate other than 30), the stage raises the insufficient-data error
  if and only if the frame has fewer than 10 rows, and the error then states the
  minimum 10 and the actual count. With exactly 10 rows the frame goes to pandas with a
  bin of 33 ms and the stage returns what pandas returns with the rate 30; with pandas'
  regridding of a float frame it succeeds.
\<close>

theorem resample_insufficient_iff:
  assumes "model_type = ''ssl''" and "sample_rate \<noteq> 30"
  shows "(resample_if_needed resample_mean model_type sample_rate csv_data
            = Inl (InsufficientResampleError 10 (length csv_data))
          \<longleftrightarrow> length csv_data < 10)
       \<and> ((\<exists>need got. resample_if_needed resample_mean model_type sample_rate csv_data
            = Inl (InsufficientResampleError need got))
          \<longleftrightarrow> length csv_data < 10)
       \<and> (length csv_data = 10 \<longrightarrow>
            resample_if_needed resample_mean model_type sample_rate csv_data
              = (case resample_mean 33 csv_data of
                   Inl msg \<Rightarrow> Inl (ResampleFailedError 30 msg)
                 | Inr resampled \<Rightarrow> Inr (resampled, 30)))
       \<and> (length csv_data = 10 \<longrightarrow>
            (\<exists>resampled. resample_if_needed pandas_resample_mean model_type sample_rate csv_data
               = Inr (resampled, 30)))"
  using assms
  by (auto simp: resample_if_needed_def resample_hz_of_def pandas_resample_mean_def Let_def
      split: sum.splits)

theorem resample_insufficient_iff_witness:
  "resample_if_needed pandas_resample_mean ''ssl'' 100
     (map (\<lambda>k. \<lparr>time = k * 10000000, x_val = Some 0, y_val = Some 0, z_val = Some 1\<rparr>) [0..8])
   = Inl (InsufficientResampleError 10 9)
   \<and> (\<exists>resampled. resample_if_needed pandas_resample_mean ''ssl'' 100
        (map (\<lambda>k. \<lparr>time = k * 10000000, x_val = Some 0, y_val = Some 0, z_val = Some 1\<rparr>)
           [0..9])
      = Inr (resampled, 30))"
proof -
  let ?rows = "\<lambda>n. map (\<lambda>k. \<lparr>time = k * 10000000, x_val = Some 0, y_val = Some 0,
                                z_val = Some 1\<rparr>) [0..n]"
  have r: "(100 :: real) \<noteq> 30" by simp
  have l9: "length (?rows 8) = 9" and l10: "length (?rows 9) = 10"
    by simp_all
  have "length (?rows 8) < 10 \<longrightarrow>
      resample_if_needed pandas_resample_mean ''ssl'' 100 (?rows 8)
        = Inl (InsufficientResampleError 10 (length (?rows 8)))"
    using resample_insufficient_iff [OF refl r, of pandas_resample_mean "?rows 8"] by blast
  then have a: "resample_if_needed pandas_resample_mean ''ssl'' 100 (?rows 8)
      = Inl (InsufficientResampleError 10 9)"
    unfolding l9 by simp
  have "length (?rows 9) = 10 \<longrightarrow>
      (\<exists>resampled. resample_if_needed pandas_resample_mean ''ssl'' 100 (?rows 9)
        = Inr (resampled, 30))"
    using resample_insufficient_iff [OF refl r, of pandas_resample_mean "?rows 9"] by blast
  then have b: "\<exists>resampled. resample_if_needed pandas_resample_mean ''ssl'' 100 (?rows 9)
      = Inr (resampled, 30)"
    unfolding l10 by simp
  from a b show ?thesis by blast
qed

text \<open>The regridded frame of the ten rows above, computed.\<close>

lemma resample_ten_samples_example:
  "resample_if_needed pandas_resample_mean ''ssl'' 100
     (map (\<lambda>k. \<lparr>time = k * 10000000, x_val = Some 0, y_val = Some 0, z_val = Some 1\<rparr>) [0..9])
   = Inr ([\<lparr>time = 0, x_val = Some 0, y_val = Some 0, z_val = Some 1\<rparr>,
           \<lparr>time = 33000000, x_val = Some 0, y_val = Some 0, z_val = Some 1\<rparr>,
           \<lparr>time = 66000000, x_val = Some 0, y_val = Some 0, z_val = Some 1\<rparr>], 30)"
  by code_simp

subsection \<open>Wear statistics, minimum data and exclusions\<close>

lemma wear_and_exclusions_past_guard:
  assumes "calculate_wear_stats csv_data = Inr wear_stats"
    and "\<not> (model_type = ''rf'' \<and> length csv_data < 50)"
    and "apply_exclusions drop_first_last_days flag_wear_below_days
           exclude_first_last exclude_wear_below csv_data = Inr excluded"
    and "calculate_wear_stats excluded = Inr updated"
  shows "wear_and_exclusions calculate_wear_stats drop_first_last_days flag_wear_below_days
           model_type exclude_first_last exclude_wear_below csv_data =
         (if length excluded = 0 \<or> list_all any_na excluded
          then Inr (NoValidData (wear_stats ++ updated))
          else Inr (Proceed excluded (wear_stats ++ updated)))"
  using assms by (auto simp: wear_and_exclusions_def)

text \<open>
  Claim C3: when the run reaches the exclusions (the wear statistics were computed and
  the Random-Forest minimum did not return first), the exclusions and the second
  computation of the wear statistics return, and the frame left is empty or every row
  of it has a null among x, y, z, the function returns the no-valid-data result, a
  value and not an exception, carrying the merged wear statistics.
\<close>

theorem no_valid_data_after_exclusions:
  assumes "calculate_wear_stats csv_data = Inr wear_stats"
    and "\<not> (model_type = ''rf'' \<and> length csv_data < 50)"
    and "apply_exclusions drop_first_last_days flag_wear_below_days
           exclude_first_last exclude_wear_below csv_data = Inr excluded"
    and "calculate_wear_stats excluded = Inr updated"
    and "excluded = [] \<or> list_all any_na excluded"
  shows "wear_and_exclusions calculate_wear_stats drop_first_last_days flag_wear_below_days
           model_type exclude_first_last exclude_wear_below csv_data =
         Inr (NoValidData (wear_stats ++ updated))"
  using assms(5) wear_and_exclusions_past_guard [OF assms(1-4)] by auto

text \<open>
  Claim C4: with the model type \<^verbatim>\<open>rf\<close> and fewer than 50 rows, once the first wear
  statistics have been computed the function returns the insufficient-data result with
  the actual number of rows and the required 50. The result holds for every exclusion
  option and every behaviour of the two exclusion functions, those that raise
  included, and for the empty frame: the minimum is checked before the exclusions and
  before the check for remaining data.
\<close>

theorem rf_minimum_data_guard:
  assumes "model_type = ''rf''"
    and "length csv_data < 50"
    and "calculate_wear_stats csv_data = Inr wear_stats"
  shows "wear_and_exclusions calculate_wear_stats drop_first_last_days flag_wear_below_days
           model_type exclude_first_last exclude_wear_below csv_data =
         Inr (InsufficientData (length csv_data) 50)"
  using assms by (simp add: wear_and_exclusions_def)

text \<open>
  Claim C9: past the Random-Forest minimum, the wear statistics are computed on the
  frame before the exclusions and on the frame after them, and the map carried on (by
  the no-valid-data result or to the model stage) is the first updated with the
  second: it agrees with the second on every key of the second and keeps the entries
  of the first for all other keys.
\<close>

theorem wear_stats_merged:
  assumes "calculate_wear_stats csv_data = Inr wear_stats"
    and "\<not> (model_type = ''rf'' \<and> length csv_data < 50)"
    and "apply_exclusions drop_first_last_days flag_wear_below_days
           exclude_first_last exclude_wear_below csv_data = Inr excluded"
    and "calculate_wear_stats excluded = Inr updated"
  shows "\<exists>out ws.
           wear_and_exclusions calculate_wear_stats drop_first_last_days flag_wear_below_days
             model_type exclude_first_last exclude_wear_below csv_data = Inr out
           \<and> carried_wear_stats out = Some ws
           \<and> ws = wear_stats ++ updated
           \<and> (\<forall>k \<in> dom updated. ws k = updated k)
           \<and> (\<forall>k. k \<notin> dom updated \<longrightarrow> ws k = wear_stats k)"
proof -
  let ?ws = "wear_stats ++ updated"
  have keys: "(\<forall>k \<in> dom updated. ?ws k = updated k)
      \<and> (\<forall>k. k \<notin> dom updated \<longrightarrow> ?ws k = wear_stats k)"
    by (auto simp: map_add_def split: option.splits)
  show ?thesis
  proof (cases "length excluded = 0 \<or> list_all any_na excluded")
    case True
    then have "wear_and_exclusions calculate_wear_stats drop_first_last_days
        flag_wear_below_days model_type exclude_first_last exclude_wear_below csv_data
        = Inr (NoValidData ?ws)"
      using wear_and_exclusions_past_guard [OF assms] by simp
    with keys show ?thesis by force
  next
    case False
    then have "wear_and_exclusions calculate_wear_stats drop_first_last_days
        flag_wear_below_days model_type exclude_first_last exclude_wear_below csv_data
        = Inr (Proceed excluded ?ws)"
      using wear_and_exclusions_past_guard [OF assms] by simp
    with keys show ?thesis by force
  qed
qed

theorem no_valid_data_after_exclusions_witness:
  "wear_and_exclusions
     (\<lambda>f. Inr [''rows'' \<mapsto> length f, ''valid'' \<mapsto> length (filter (\<lambda>r. \<not> any_na r) f)])
     (\<lambda>f days. Inr f)
     (\<lambda>f days. Inr (map (\<lambda>r. r\<lparr>x_val := None, y_val := None, z_val := None\<rparr>) f))
     ''rf'' None (Some ''1'')
     (replicate 50 \<lparr>time = 0, x_val = Some 0, y_val = Some 0, z_val = Some 1\<rparr>)
   = Inr (NoValidData ([''rows'' \<mapsto> 50, ''valid'' \<mapsto> 50] ++ [''rows'' \<mapsto> 50, ''valid'' \<mapsto> 0]))"
proof -
  let ?row = "\<lparr>time = 0, x_val = Some 0, y_val = Some 0, z_val = Some 1\<rparr>"
  let ?nul = "\<lparr>time = 0, x_val = None, y_val = None, z_val = None\<rparr>"
  let ?calc = "\<lambda>f :: sample list.
     (Inr [''rows'' \<mapsto> length f, ''valid'' \<mapsto> length (filter (\<lambda>r. \<not> any_na r) f)]
        :: string + (string \<rightharpoonup> nat))"
  let ?drop = "\<lambda>(f :: sample list) (days :: string). (Inr f :: string + sample list)"
  let ?flag = "\<lambda>(f :: sample list) (days :: string).
     (Inr (map (\<lambda>r. r\<lparr>x_val := None, y_val := None, z_val := None\<rparr>) f) :: string + sample list)"
  have 1: "?calc (replicate 50 ?row) = Inr [''rows'' \<mapsto> 50, ''valid'' \<mapsto> 50]"
    by (simp add: any_na_def)
  have 2: "\<not> (''rf'' = ''rf'' \<and> length (replicate 50 ?row) < 50)"
    by simp
  have 3: "apply_exclusions ?drop ?flag None (Some ''1'') (replicate 50 ?row)
      = Inr (replicate 50 ?nul)"
    by (simp add: apply_exclusions_def option_given_def strip_def isspace_def lower_def
        lower_char_def)
  have 4: "?calc (replicate 50 ?nul) = Inr [''rows'' \<mapsto> 50, ''valid'' \<mapsto> 0]"
    by (simp add: any_na_def)
  have 5: "replicate 50 ?nul = [] \<or> list_all any_na (replicate 50 ?nul)"
    by (simp add: any_na_def list_all_iff)
  from no_valid_data_after_exclusions [OF 1 2 3 4 5] show ?thesis .
qed

theorem rf_minimum_data_guard_witness:
  "wear_and_exclusions
     (\<lambda>f. Inr [''rows'' \<mapsto> length f])
     (\<lambda>f days. Inl ''drop_first_last_days raised'')
     (\<lambda>f days. Inl ''flag_wear_below_days raised'')
     ''rf'' (Some ''1'') (Some ''2'')
     (replicate 49 \<lparr>time = 0, x_val = None, y_val = None, z_val = None\<rparr>)
   = Inr (InsufficientData 49 50)
   \<and> wear_and_exclusions
     (\<lambda>f. Inr [''rows'' \<mapsto> length f])
     (\<lambda>f days. Inl ''drop_first_last_days raised'')
     (\<lambda>f days. Inl ''flag_wear_below_days raised'')
     ''rf'' (Some ''1'') (Some ''2'') []
   = Inr (InsufficientData 0 50)"
proof -
  let ?calc = "\<lambda>f :: sample list. (Inr [''rows'' \<mapsto> length f] :: string + (string \<rightharpoonup> nat))"
  let ?drop = "\<lambda>(f :: sample list) (days :: string).
     (Inl ''drop_first_last_days raised'' :: string + sample list)"
  let ?flag = "\<lambda>(f :: sample list) (days :: string).
     (Inl ''flag_wear_below_days raised'' :: string + sample list)"
  let ?rows = "replicate 49 \<lparr>time = 0, x_val = None, y_val = None, z_val = None\<rparr>"
  have a: "wear_and_exclusions ?calc ?drop ?flag ''rf'' (Some ''1'') (Some ''2'') ?rows
      = Inr (InsufficientData (length ?rows) 50)"
    by (rule rf_minimum_data_guard [where wear_stats = "[''rows'' \<mapsto> 49]"]) simp_all
  have b: "wear_and_exclusions ?calc ?drop ?flag ''rf'' (Some ''1'') (Some ''2'') []
      = Inr (InsufficientData (length ([] :: sample list)) 50)"
    by (rule rf_minimum_data_guard [where wear_stats = "[''rows'' \<mapsto> 0]"]) simp_all
  from a b show ?thesis by simp
qed

theorem wear_stats_merged_witness:
  "\<exists>out ws.
     wear_and_exclusions
       (\<lambda>f. Inr (if length f = 2 then [''WearTime'' \<mapsto> 2, ''Before'' \<mapsto> 7]
                 else [''WearTime'' \<mapsto> 1]))
       (\<lambda>f days. Inr (tl f))
       (\<lambda>f days. Inr f)
       ''ssl'' (Some ''1'') None
       [\<lparr>time = 0, x_val = Some 0, y_val = Some 0, z_val = Some 1\<rparr>,
        \<lparr>time = 86400000000000, x_val = Some 0, y_val = Some 0, z_val = Some 1\<rparr>] = Inr out
     \<and> carried_wear_stats out = Some ws
     \<and> ws ''WearTime'' = Some (1::nat) \<and> ws ''Before'' = Some 7"
proof -
  let ?r0 = "\<lparr>time = 0, x_val = Some 0, y_val = Some 0, z_val = Some 1\<rparr>"
  let ?r1 = "\<lparr>time = 86400000000000, x_val = Some 0, y_val = Some 0, z_val = Some 1\<rparr>"
  let ?calc = "\<lambda>f :: sample list.
     (Inr (if length f = 2 then [''WearTime'' \<mapsto> 2, ''Before'' \<mapsto> 7]
           else [''WearTime'' \<mapsto> 1]) :: string + (string \<rightharpoonup> nat))"
  let ?drop = "\<lambda>(f :: sample list) (days :: string). (Inr (tl f) :: string + sample list)"
  let ?flag = "\<lambda>(f :: sample list) (days :: string). (Inr f :: string + sample list)"
  have 1: "?calc [?r0, ?r1] = Inr [''WearTime'' \<mapsto> 2, ''Before'' \<mapsto> 7]"
    by simp
  have 2: "\<not> (''ssl'' = ''rf'' \<and> length [?r0, ?r1] < 50)"
    by simp
  have 3: "apply_exclusions ?drop ?flag (Some ''1'') None [?r0, ?r1] = Inr [?r1]"
    by (simp add: apply_exclusions_def option_given_def strip_def isspace_def lower_def
        lower_char_def)
  have 4: "?calc [?r1] = Inr [''WearTime'' \<mapsto> 1]"
    by simp
  from wear_stats_merged [OF 1 2 3 4] obtain out ws where
    out: "wear_and_exclusions ?calc ?drop ?flag ''ssl'' (Some ''1'') None [?r0, ?r1] = Inr out"
    and ws: "carried_wear_stats out = Some ws"
    and new: "\<forall>k \<in> dom [''WearTime'' \<mapsto> (1::nat)]. ws k = [''WearTime'' \<mapsto> 1] k"
    and old: "\<forall>k. k \<notin> dom [''WearTime'' \<mapsto> (1::nat)]
                \<longrightarrow> ws k = [''WearTime'' \<mapsto> 2, ''Before'' \<mapsto> 7] k"
    by blast
  from new have "ws ''WearTime'' = Some 1" by simp
  moreover from old have "ws ''Before'' = Some 7" by simp
  ultimately show ?thesis using out ws by blast
qed

subsection \<open>Multi-resolution aggregation\<close>

lemma sum_list_delta_upto:
  fixes v :: real
  assumes "a \<le> c" and "c \<le> b"
  shows "sum_list (map (\<lambda>k. if c = k then v else 0) (filter P [a..b])) = (if P c then v else 0)"
proof -
  have "sum_list (map (\<lambda>k. if c = k then v else 0) (filter P [a..b]))
      = (\<Sum>k \<in> set (filter P [a..b]). if c = k then v else 0)"
    by (rule sum_list_distinct_conv_sum_set) simp
  also have "\<dots> = (if c \<in> set (filter P [a..b]) then v else 0)"
    by (rule sum.delta') (rule finite_set)
  also have "\<dots> = (if P c then v else 0)"
    using assms by simp
  finally show ?thesis .
qed

lemma sum_list_regroup:
  fixes g :: "'a \<Rightarrow> real"
  assumes "\<forall>r \<in> set rows. a \<le> \<kappa> r \<and> \<kappa> r \<le> b"
  shows "sum_list (map (\<lambda>k. sum_list (map g (filter (\<lambda>r. \<kappa> r = k) rows))) (filter P [a..b]))
       = sum_list (map g (filter (\<lambda>r. P (\<kappa> r)) rows))"
  using assms
proof (induction rows)
  case Nil
  then show ?case by simp
next
  case (Cons r rows)
  have split: "\<And>k. sum_list (map g (filter (\<lambda>r. \<kappa> r = k) (r # rows)))
      = (if \<kappa> r = k then g r else 0) + sum_list (map g (filter (\<lambda>r. \<kappa> r = k) rows))"
    by simp
  have "sum_list (map (\<lambda>k. sum_list (map g (filter (\<lambda>r. \<kappa> r = k) (r # rows)))) (filter P [a..b]))
      = sum_list (map (\<lambda>k. if \<kappa> r = k then g r else 0) (filter P [a..b]))
        + sum_list (map (\<lambda>k. sum_list (map g (filter (\<lambda>r. \<kappa> r = k) rows))) (filter P [a..b]))"
    unfolding split by (rule sum_list_addf)
  also have "sum_list (map (\<lambda>k. if \<kappa> r = k then g r else 0) (filter P [a..b]))
      = (if P (\<kappa> r) then g r else 0)"
    using Cons.prems by (intro sum_list_delta_upto) auto
  also have "sum_list (map (\<lambda>k. sum_list (map g (filter (\<lambda>r. \<kappa> r = k) rows))) (filter P [a..b]))
      = sum_list (map g (filter (\<lambda>r. P (\<kappa> r)) rows))"
    using Cons by simp
  finally show ?case by simp
qed


lemma div_day_of_label:
  fixes origin a w D :: int
  assumes "D dvd origin" and "w dvd D" and "0 < w" and "0 < D"
  shows "(origin + (a div w) * w) div D = (origin + a) div D"
proof -
  from assms(2) obtain c where c: "D = w * c" by (auto simp: dvd_def)
  with assms(3,4) have cpos: "0 \<le> c"
    by (simp add: zero_less_mult_iff)
  have "((a div w) * w) div D = a div D"
    unfolding c using cpos assms(3) by (simp add: zdiv_zmult2_eq)
  moreover have "(origin + (a div w) * w) div D = origin div D + ((a div w) * w) div D"
    using assms(1) by (rule div_plus_div_distrib_dvd_left)
  moreover have "(origin + a) div D = origin div D + a div D"
    using assms(1) by (rule div_plus_div_distrib_dvd_left)
  ultimately show ?thesis by simp
qed


lemma nansum_Steps: "nansum (map Steps grp) = total_steps grp"
  by (induction grp) (simp_all add: nansum_def total_steps_def step_count_def)

lemma bin_in_range:
  fixes key :: "'a \<Rightarrow> int"
  assumes "r \<in> set rows" and "0 < w"
  shows "(Min (set (map key rows)) - origin) div w \<le> (key r - origin) div w
       \<and> (key r - origin) div w \<le> (Max (set (map key rows)) - origin) div w"
proof -
  have "Min (set (map key rows)) \<le> key r" and "key r \<le> Max (set (map key rows))"
    using assms(1) by simp_all
  then have "Min (set (map key rows)) - origin \<le> key r - origin"
    and "key r - origin \<le> Max (set (map key rows)) - origin"
    by linarith+
  then show ?thesis
    using assms(2) by (simp add: zdiv_mono1)
qed

lemma aggregate_rows:
  assumes "rows \<noteq> []"
  shows "aggregate w rows =
      map (\<lambda>k. \<lparr>stamp = start_day (map stamp rows) + k * w,
                  Steps = Some (total_steps
                    (filter (\<lambda>r. (stamp r - start_day (map stamp rows)) div w = k) rows)),
                  ENMO_mg = nanmean (map ENMO_mg
                    (filter (\<lambda>r. (stamp r - start_day (map stamp rows)) div w = k) rows))\<rparr>)
          [(Min (set (map stamp rows)) - start_day (map stamp rows)) div w ..
           (Max (set (map stamp rows)) - start_day (map stamp rows)) div w]"
  using assms
  by (simp add: aggregate_def resample_groups_def Let_def nansum_Steps comp_def)

lemma aggregate_filter_total:
  assumes "0 < w"
  shows "total_steps (filter (\<lambda>h. p (stamp h)) (aggregate w rows))
       = total_steps (filter (\<lambda>r. p (start_day (map stamp rows)
                                       + ((stamp r - start_day (map stamp rows)) div w) * w)) rows)"
proof (cases "rows = []")
  case True
  then show ?thesis
    by (simp add: aggregate_def resample_groups_def total_steps_def)
next
  case False
  define origin where "origin = start_day (map stamp rows)"
  define lo where "lo = (Min (set (map stamp rows)) - origin) div w"
  define hi where "hi = (Max (set (map stamp rows)) - origin) div w"
  define \<kappa> where "\<kappa> = (\<lambda>r :: step_row. (stamp r - origin) div w)"
  have range: "\<forall>r \<in> set rows. lo \<le> \<kappa> r \<and> \<kappa> r \<le> hi"
    unfolding lo_def hi_def \<kappa>_def using bin_in_range [OF _ assms, of _ rows stamp origin] by blast
  have "total_steps (filter (\<lambda>h. p (stamp h)) (aggregate w rows))
      = sum_list (map (\<lambda>k. sum_list (map step_count (filter (\<lambda>r. \<kappa> r = k) rows)))
                      (filter (\<lambda>k. p (origin + k * w)) [lo..hi]))"
    unfolding aggregate_rows [OF False]
    by (simp add: total_steps_def filter_map comp_def step_count_def nan_to_zero_def
        origin_def lo_def hi_def \<kappa>_def)
  also have "\<dots> = sum_list (map step_count (filter (\<lambda>r. p (origin + \<kappa> r * w)) rows))"
    using range by (rule sum_list_regroup)
  finally show ?thesis
    by (simp add: total_steps_def origin_def \<kappa>_def)
qed

lemma day_dvd_start_day: "day_ns dvd start_day ts"
  by (simp add: start_day_def)

lemma hourly_total_on_day:
  "total_steps (on_day t (aggregate hour_ns rows)) = total_steps (on_day t rows)"
proof -
  have hd: "hour_ns dvd day_ns" and hp: "0 < hour_ns" and dp: "0 < day_ns"
    by (simp_all add: hour_ns_def day_ns_def)
  have label: "\<And>s. (start_day (map stamp rows)
        + ((s - start_day (map stamp rows)) div hour_ns) * hour_ns) div day_ns = s div day_ns"
    using div_day_of_label [OF day_dvd_start_day hd hp dp] by simp
  show ?thesis
    unfolding on_day_def
    using aggregate_filter_total [OF hp, of "\<lambda>s. s div day_ns = t div day_ns" rows]
    by (simp add: label)
qed

lemma daily_row_total:
  assumes "d \<in> set (aggregate day_ns rows)"
  shows "step_count d = total_steps (on_day (stamp d) rows)"
proof -
  have dp: "0 < day_ns" by (simp add: day_ns_def)
  define origin where "origin = start_day (map stamp rows)"
  from assms have ne: "rows \<noteq> []"
    by (auto simp: aggregate_def resample_groups_def)
  from assms obtain k where
    d: "d = \<lparr>stamp = origin + k * day_ns,
              Steps = Some (total_steps
                (filter (\<lambda>r. (stamp r - origin) div day_ns = k) rows)),
              ENMO_mg = nanmean (map ENMO_mg
                (filter (\<lambda>r. (stamp r - origin) div day_ns = k) rows))\<rparr>"
    unfolding aggregate_rows [OF ne] origin_def by auto
  have st: "stamp d = origin + k * day_ns"
    unfolding d by simp
  have sc: "step_count d = total_steps (filter (\<lambda>r. (stamp r - origin) div day_ns = k) rows)"
    unfolding d by (simp add: step_count_def nan_to_zero_def)
  have dv: "day_ns dvd origin"
    unfolding origin_def by (rule day_dvd_start_day)
  have "\<And>s. (s div day_ns = stamp d div day_ns) \<longleftrightarrow> ((s - origin) div day_ns = k)"
  proof -
    fix s
    have "s div day_ns = (origin + (s - origin)) div day_ns" by simp
    also have "\<dots> = origin div day_ns + (s - origin) div day_ns"
      using dv by (rule div_plus_div_distrib_dvd_left)
    finally have a: "s div day_ns = origin div day_ns + (s - origin) div day_ns" .
    have "stamp d div day_ns = origin div day_ns + (k * day_ns) div day_ns"
      unfolding st using dv by (rule div_plus_div_distrib_dvd_left)
    then have b: "stamp d div day_ns = origin div day_ns + k"
      using dp by simp
    show "(s div day_ns = stamp d div day_ns) \<longleftrightarrow> ((s - origin) div day_ns = k)"
      unfolding a b by simp
  qed
  then show ?thesis
    by (simp add: sc on_day_def)
qed

text \<open>
  Claim C8: for every frame and every step series, the step count of each row of the
  daily table equals the sum of the step counts of the rows of the hourly table that
  lie in that day, which equals the sum of the step counts of the rows of the minutely
  table that lie in that day. The minutely table sums the steps and is filled with
  zeros, and the two coarser tables are computed from it alone.
\<close>

theorem day_total_is_sum_of_hours_and_minutes:
  assumes "d \<in> set (daily_data Y csv_data)"
  shows "step_count d = total_steps (on_day (stamp d) (hourly_data Y csv_data))
       \<and> total_steps (on_day (stamp d) (hourly_data Y csv_data))
           = total_steps (on_day (stamp d) (minutely_data Y csv_data))"
proof -
  have "step_count d = total_steps (on_day (stamp d) (minutely_data Y csv_data))"
    using assms unfolding daily_data_def by (rule daily_row_total)
  moreover have "total_steps (on_day (stamp d) (hourly_data Y csv_data))
      = total_steps (on_day (stamp d) (minutely_data Y csv_data))"
    unfolding hourly_data_def by (rule hourly_total_on_day)
  ultimately show ?thesis by simp
qed

theorem day_total_is_sum_of_hours_and_minutes_witness:
  "\<lparr>stamp = 86400000000000, Steps = Some 7, ENMO_mg = Some 0\<rparr>
     \<in> set (daily_data
         [86399000000000 \<mapsto> 2, 86400000000000 \<mapsto> 3, 86521000000000 \<mapsto> 4]
         [\<lparr>time = 86399000000000, x_val = Some 0, y_val = Some 0, z_val = Some 1\<rparr>,
          \<lparr>time = 86400000000000, x_val = Some 0, y_val = Some 0, z_val = Some 1\<rparr>,
          \<lparr>time = 86521000000000, x_val = Some 0, y_val = Some 0, z_val = Some 1\<rparr>])
   \<and> total_steps (on_day 86400000000000 (hourly_data
         [86399000000000 \<mapsto> 2, 86400000000000 \<mapsto> 3, 86521000000000 \<mapsto> 4]
         [\<lparr>time = 86399000000000, x_val = Some 0, y_val = Some 0, z_val = Some 1\<rparr>,
          \<lparr>time = 86400000000000, x_val = Some 0, y_val = Some 0, z_val = Some 1\<rparr>,
          \<lparr>time = 86521000000000, x_val = Some 0, y_val = Some 0, z_val = Some 1\<rparr>])) = 7
   \<and> total_steps (on_day 86400000000000 (minutely_data
         [86399000000000 \<mapsto> 2, 86400000000000 \<mapsto> 3, 86521000000000 \<mapsto> 4]
         [\<lparr>time = 86399000000000, x_val = Some 0, y_val = Some 0, z_val = Some 1\<rparr>,
          \<lparr>time = 86400000000000, x_val = Some 0, y_val = Some 0, z_val = Some 1\<rparr>,
          \<lparr>time = 86521000000000, x_val = Some 0, y_val = Some 0, z_val = Some 1\<rparr>])) = 7"
proof -
  let ?Y = "[86399000000000 \<mapsto> 2, 86400000000000 \<mapsto> 3, 86521000000000 \<mapsto> (4::real)]"
  let ?rows = "[\<lparr>time = 86399000000000, x_val = Some 0, y_val = Some 0, z_val = Some 1\<rparr>,
          \<lparr>time = 86400000000000, x_val = Some 0, y_val = Some 0, z_val = Some 1\<rparr>,
          \<lparr>time = 86521000000000, x_val = Some 0, y_val = Some 0, z_val = Some 1\<rparr>]"
  let ?d = "\<lparr>stamp = 86400000000000, Steps = Some 7, ENMO_mg = Some 0\<rparr>"
  have m: "minutely_data ?Y ?rows =
      [\<lparr>stamp = 86340000000000, Steps = Some 2, ENMO_mg = Some 0\<rparr>,
       \<lparr>stamp = 86400000000000, Steps = Some 3, ENMO_mg = Some 0\<rparr>,
       \<lparr>stamp = 86460000000000, Steps = Some 0, ENMO_mg = Some 0\<rparr>,
       \<lparr>stamp = 86520000000000, Steps = Some 4, ENMO_mg = Some 0\<rparr>]"
    by (simp add: minutely_data_def aggregate_def attach_steps_def resample_groups_def
        start_day_def day_ns_def minute_ns_def fillna0_def nansum_def nanmean_def enmo_def
        nan_to_zero_def Let_def upto.simps)
  have d: "daily_data ?Y ?rows =
      [\<lparr>stamp = 0, Steps = Some 2, ENMO_mg = Some 0\<rparr>, ?d]"
    unfolding daily_data_def m
    by (simp add: aggregate_def resample_groups_def start_day_def day_ns_def nansum_def
        nanmean_def nan_to_zero_def Let_def upto.simps)
  then have mem: "?d \<in> set (daily_data ?Y ?rows)"
    by simp
  have sc: "step_count ?d = 7"
    by (simp add: step_count_def nan_to_zero_def)
  from day_total_is_sum_of_hours_and_minutes [OF mem] sc mem show ?thesis
    by simp
qed

end
